theory Spec2Isabelle
  imports Main
begin

section \<open>Content provider: \<open>quranApiService.getSurahData\<close>\<close>

text \<open>
  The data the provider's JSON carries, as far as \<open>page.js\<close> reads it. An ayah of an
  edition has a global number, its position in the surah, an audio locator and a text
  (field \<open>text\<close> of the source, here \<open>ayah_text\<close>). \<open>getSurahData\<close> spreads the audio
  edition's ayah and adds the two texts.
\<close>

record api_ayah =
  number :: int
  numberInSurah :: int
  audio :: string
  ayah_text :: string

record ayah = api_ayah +
  textArabic :: string
  textEnglish :: string

text \<open>
  One element of \<open>json.data\<close>: \<open>edition_id\<close> is \<open>d.edition.identifier\<close>. The value
  \<open>getSurahData\<close> returns has the same shape with the combined ayahs.
\<close>

record 'a surah_edition =
  edition_id :: string
  ayahs :: "'a list"

type_synonym surah_bundle = "ayah surah_edition"

text \<open>
  \<open>json.data\<close> is a string (the provider's error text), an array of editions, or absent.
  \<open>data_truthy\<close> is JavaScript's truthiness (\<open>x || y\<close>), \<open>data_string\<close> the string
  conversion that a template literal and \<open>new Error(x)\<close> apply: an array of objects
  becomes its elements' \<open>[object Object]\<close> joined by commas.
\<close>

datatype json_data = DataText string | DataArray "api_ayah surah_edition list" | DataAbsent

fun data_truthy :: "json_data \<Rightarrow> bool" where
  "data_truthy (DataText t) = (t \<noteq> [])"
| "data_truthy (DataArray xs) = True"
| "data_truthy DataAbsent = False"

fun objects_string :: "'a list \<Rightarrow> string" where
  "objects_string [] = []"
| "objects_string [x] = ''[object Object]''"
| "objects_string (x # y # ys) = ''[object Object],'' @ objects_string (y # ys)"

fun data_string :: "json_data \<Rightarrow> string" where
  "data_string (DataText t) = t"
| "data_string (DataArray xs) = objects_string xs"
| "data_string DataAbsent = ''undefined''"

text \<open>
  What the network gives back: \<open>fetch\<close> rejects with a message, or resolves to a response
  with \<open>ok\<close>, \<open>statusText\<close> and a body; \<open>res.json()\<close> rejects with the parser's message
  or resolves to an object with \<open>code\<close> and \<open>data\<close>.
\<close>

datatype response_body = Unparsable string | Parsed int json_data

datatype http_result = Rejected string | Response bool string response_body

text \<open>The fallback texts; the Arabic one is the UTF-8 encoding of the source's literal.\<close>

definition BASMALAH :: string where
  "BASMALAH = map char_of
     [216, 168, 217, 144, 216, 179, 217, 146, 217, 133, 217, 144, 32, 217, 177, 217, 132,
      217, 132, 217, 145, 217, 142, 217, 135, 217, 144, 32, 217, 177, 217, 132, 216, 177,
      217, 145, 217, 142, 216, 173, 217, 146, 217, 133, 217, 142, 217, 176, 217, 134, 217,
      144, 32, 217, 177, 217, 132, 216, 177, 217, 145, 217, 142, 216, 173, 217, 144, 217,
      138, 217, 133, 217, 144 :: nat]"

definition BASMALAH_EN :: string where
  "BASMALAH_EN = ''In the name of Allah, the Entirely Merciful, the Especially Merciful.''"

text \<open>\<open>xs[i]?.text || fallback\<close>: a missing element or an empty text gives the fallback.\<close>

definition text_or :: "api_ayah list \<Rightarrow> nat \<Rightarrow> string \<Rightarrow> string" where
  "text_or xs i fallback =
     (if i < length xs \<and> ayah_text (xs ! i) \<noteq> [] then ayah_text (xs ! i) else fallback)"

definition combine :: "api_ayah list \<Rightarrow> api_ayah list \<Rightarrow> nat \<Rightarrow> api_ayah \<Rightarrow> ayah" where
  "combine textAyahs translationAyahs i a =
     api_ayah.extend a
       (ayah.fields (text_or textAyahs i BASMALAH) (text_or translationAyahs i BASMALAH_EN))"

definition combinedAyahs ::
  "api_ayah list \<Rightarrow> api_ayah list \<Rightarrow> api_ayah list \<Rightarrow> ayah list" where
  "combinedAyahs audioAyahs textAyahs translationAyahs =
     map (\<lambda>(i, a). combine textAyahs translationAyahs i a) (enumerate 0 audioAyahs)"

text \<open>
  \<open>getSurahData\<close>, with every \<open>throw\<close> and every rejected \<open>await\<close> as \<open>Inl\<close> of the
  error's message. The surah number only builds the URL; the response is the network's.
\<close>

definition getSurahData :: "int \<Rightarrow> string \<Rightarrow> http_result \<Rightarrow> string + surah_bundle" where
  "getSurahData surahNumber editionId res =
     (case res of
        Rejected msg \<Rightarrow> Inl msg
      | Response ok statusText body \<Rightarrow>
          if \<not> ok then
            (let errorData = (case body of Unparsable m \<Rightarrow> DataText statusText
                                          | Parsed c d \<Rightarrow> d)
             in Inl (''Failed to fetch surah data: '' @
                      (if data_truthy errorData then data_string errorData else statusText)))
          else
            (case body of
               Unparsable msg \<Rightarrow> Inl msg
             | Parsed code d \<Rightarrow>
                 (case (if code \<noteq> 200 then None
                        else (case d of DataArray xs \<Rightarrow> Some xs | _ \<Rightarrow> None)) of
                    None \<Rightarrow>
                      Inl (if data_truthy d then data_string d
                           else ''Invalid data structure received for surah.'')
                  | Some xs \<Rightarrow>
                      (case (find (\<lambda>d. edition_id d = editionId) xs,
                             find (\<lambda>d. edition_id d = ''quran-uthmani'') xs,
                             find (\<lambda>d. edition_id d = ''en.sahih'') xs) of
                         (Some audioData, Some textData, Some translationData) \<Rightarrow>
                           Inr \<lparr>edition_id = edition_id audioData,
                                ayahs = combinedAyahs (ayahs audioData) (ayahs textData)
                                          (ayahs translationData)\<rparr>
                       | _ \<Rightarrow>
                           Inl ''One or more required editions could not be found for this surah.''))))"

section \<open>The player state of \<open>useQuranPlayer\<close>\<close>

text \<open>
  The audio element. \<open>src_attr\<close> is the \<open>src\<close> attribute as last assigned (\<open>None\<close>
  while it has never been assigned); \<open>calls\<close> are the assignments of \<open>src\<close> and the
  method calls made on the element, oldest first. Reading \<open>audio.src\<close> does not give
  the attribute back: the browser resolves it against the document and returns the
  serialised URL, or the empty string when there is no attribute. That resolution is
  the document's, not the program's, so it is a parameter, kept with the element as
  \<open>resolveUrl\<close>.
\<close>

datatype audio_call = SetSrc string | Load | Play | Pause

record audio_el =
  src_attr :: "string option"
  calls :: "audio_call list"
  resolveUrl :: "string \<Rightarrow> string"

definition src :: "audio_el \<Rightarrow> string" where
  "src a = (case src_attr a of None \<Rightarrow> [] | Some u \<Rightarrow> resolveUrl a u)"

text \<open>
  A fetch in flight: the selection it was issued for and the \<open>isPlaying\<close> its closure
  holds (the effect's dependencies are the selection only, so the closure keeps the
  value of the render that changed the selection).
\<close>

record fetch_req =
  req_surah :: int
  req_edition :: string
  req_isPlaying :: bool

record player =
  selectedSurahNum :: int
  selectedEditionId :: string
  surahData :: "surah_bundle option"
  currentAyahIndex :: int
  isPlaying :: bool
  isLoading :: bool
  error :: "string option"
  continuousPlay :: bool
  autoPlayOnLoadRef :: bool
  audioRef :: audio_el
  pending :: "fetch_req list"

definition TOTAL_SURAHS :: int where
  "TOTAL_SURAHS = 114"

text \<open>\<open>surahData?.ayahs[currentAyahIndex]\<close>: \<open>None\<close> is JavaScript's \<open>undefined\<close>.\<close>

definition currentAyah :: "player \<Rightarrow> ayah option" where
  "currentAyah s =
     (case surahData s of
        None \<Rightarrow> None
      | Some d \<Rightarrow>
          if 0 \<le> currentAyahIndex s \<and> currentAyahIndex s < int (length (ayahs d))
          then Some (ayahs d ! nat (currentAyahIndex s)) else None)"

subsection \<open>Effects\<close>

text \<open>
  The effect on the selection (lines 131 to 154), up to its \<open>await\<close>: it returns at once
  when either selection is falsy, else marks loading, clears the error and issues the
  fetch.
\<close>

definition fetchSurahData :: "player \<Rightarrow> player" where
  "fetchSurahData s =
     (if selectedSurahNum s = 0 \<or> selectedEditionId s = [] then s
      else s\<lparr>isLoading := True, error := None,
              pending := pending s @
                [\<lparr>req_surah = selectedSurahNum s, req_edition = selectedEditionId s,
                  req_isPlaying = isPlaying s\<rparr>]\<rparr>)"

definition playAudio :: "audio_el \<Rightarrow> audio_el" where
  "playAudio a = a\<lparr>calls := calls a @ [Play]\<rparr>"

text \<open>The effect that controls the audio element (lines 197 to 229).\<close>

definition audioEffect :: "player \<Rightarrow> player" where
  "audioEffect s =
     (case currentAyah s of
        None \<Rightarrow> s
      | Some cur \<Rightarrow>
          let a = audioRef s;
              isNewSrc = (src a \<noteq> audio cur);
              a1 = (if isNewSrc
                    then a\<lparr>src_attr := Some (audio cur),
                           calls := calls a @ [SetSrc (audio cur), Load]\<rparr>
                    else a)
          in if isPlaying s then
               (if isNewSrc then s\<lparr>audioRef := a1, autoPlayOnLoadRef := True\<rparr>
                else s\<lparr>audioRef := playAudio a1\<rparr>)
             else s\<lparr>audioRef := a1\<lparr>calls := calls a1 @ [Pause]\<rparr>\<rparr>)"

text \<open>
  After a handler has updated the state, React renders once and runs the effects whose
  dependencies changed: the fetch effect on the selection, the audio effect on
  \<open>surahData\<close>, \<open>currentAyahIndex\<close>, \<open>isPlaying\<close> and \<open>handleNextAyah\<close> (which changes with
  \<open>continuousPlay\<close> and \<open>selectedSurahNum\<close> as well).
\<close>

definition selection_changed :: "player \<Rightarrow> player \<Rightarrow> bool" where
  "selection_changed s s' \<longleftrightarrow>
     selectedSurahNum s \<noteq> selectedSurahNum s' \<or> selectedEditionId s \<noteq> selectedEditionId s'"

definition audio_deps_changed :: "player \<Rightarrow> player \<Rightarrow> bool" where
  "audio_deps_changed s s' \<longleftrightarrow>
     surahData s \<noteq> surahData s' \<or> currentAyahIndex s \<noteq> currentAyahIndex s' \<or>
     isPlaying s \<noteq> isPlaying s' \<or> continuousPlay s \<noteq> continuousPlay s' \<or>
     selectedSurahNum s \<noteq> selectedSurahNum s'"

definition run_effects :: "player \<Rightarrow> player \<Rightarrow> player" where
  "run_effects s s' =
     (let s1 = (if selection_changed s s' then fetchSurahData s' else s')
      in if audio_deps_changed s s' then audioEffect s1 else s1)"

subsection \<open>Handlers\<close>

definition handleNextAyah :: "player \<Rightarrow> player" where
  "handleNextAyah s =
     (case surahData s of
        None \<Rightarrow> s
      | Some d \<Rightarrow>
          if currentAyahIndex s \<ge> int (length (ayahs d)) - 1 then
            (if continuousPlay s \<and> selectedSurahNum s < TOTAL_SURAHS
             then s\<lparr>selectedSurahNum := selectedSurahNum s + 1\<rparr>
             else s\<lparr>isPlaying := False\<rparr>)
          else s\<lparr>currentAyahIndex := currentAyahIndex s + 1, autoPlayOnLoadRef := True\<rparr>)"

definition handlePrevAyah :: "player \<Rightarrow> player" where
  "handlePrevAyah s =
     (if currentAyahIndex s > 0
      then s\<lparr>currentAyahIndex := currentAyahIndex s - 1, autoPlayOnLoadRef := True\<rparr>
      else if selectedSurahNum s > 1 then s\<lparr>selectedSurahNum := selectedSurahNum s - 1\<rparr>
      else s)"

definition handleNextSurah :: "player \<Rightarrow> player" where
  "handleNextSurah s =
     (if selectedSurahNum s < TOTAL_SURAHS
      then s\<lparr>selectedSurahNum := selectedSurahNum s + 1\<rparr> else s)"

definition handlePrevSurah :: "player \<Rightarrow> player" where
  "handlePrevSurah s =
     (if selectedSurahNum s > 1 then s\<lparr>selectedSurahNum := selectedSurahNum s - 1\<rparr> else s)"

definition togglePlayPause :: "player \<Rightarrow> player" where
  "togglePlayPause s = s\<lparr>isPlaying := \<not> isPlaying s\<rparr>"

definition handleCanPlay :: "player \<Rightarrow> player" where
  "handleCanPlay s =
     (if autoPlayOnLoadRef s
      then s\<lparr>audioRef := playAudio (audioRef s), autoPlayOnLoadRef := False\<rparr>
      else s)"

text \<open>
  The rest of \<open>fetchSurahData\<close>, when the awaited \<open>getSurahData\<close> settles: the \<open>try\<close>
  branch commits the data, resets the index and sets the autoplay flag if the closure's
  \<open>isPlaying\<close> holds; the \<open>catch\<close> branch stores the message, clears the data and stops
  playback; \<open>finally\<close> ends loading. Nothing compares the request with the selection of
  the moment. A committed bundle is a new object, so the audio effect runs after it.
\<close>

definition fetchSurahData_settled :: "fetch_req \<Rightarrow> http_result \<Rightarrow> player \<Rightarrow> player" where
  "fetchSurahData_settled r res s =
     (if r \<notin> set (pending s) then s
      else
        let s0 = s\<lparr>pending := remove1 r (pending s)\<rparr>
        in case getSurahData (req_surah r) (req_edition r) res of
             Inr data \<Rightarrow>
               audioEffect
                 (s0\<lparr>surahData := Some data, currentAyahIndex := 0,
                     autoPlayOnLoadRef := (if req_isPlaying r then True else autoPlayOnLoadRef s0),
                     isLoading := False\<rparr>)
           | Inl msg \<Rightarrow>
               run_effects s0
                 (s0\<lparr>error := Some msg, surahData := None, isPlaying := False,
                     isLoading := False\<rparr>))"

subsection \<open>Events\<close>

text \<open>
  One event is one handler run followed by the render and its effects. The audio
  element's listeners (\<open>ended\<close>, \<open>canplay\<close>) are attached exactly while the audio effect
  has passed its guard, that is, while the cursor has a current ayah. A rejected
  \<open>play()\<close> promise clears \<open>isPlaying\<close>.
\<close>

datatype event =
    NextAyah | PrevAyah | NextSurah | PrevSurah
  | SelectSurah int | SelectEdition string
  | TogglePlayPause | ToggleContinuousPlay
  | FetchSettled fetch_req http_result
  | CanPlay | Ended | PlayRejected

fun step :: "player \<Rightarrow> event \<Rightarrow> player" where
  "step s NextAyah = run_effects s (handleNextAyah s)"
| "step s PrevAyah = run_effects s (handlePrevAyah s)"
| "step s NextSurah = run_effects s (handleNextSurah s)"
| "step s PrevSurah = run_effects s (handlePrevSurah s)"
| "step s (SelectSurah n) = run_effects s (s\<lparr>selectedSurahNum := n\<rparr>)"
| "step s (SelectEdition e) = run_effects s (s\<lparr>selectedEditionId := e\<rparr>)"
| "step s TogglePlayPause = run_effects s (togglePlayPause s)"
| "step s ToggleContinuousPlay = run_effects s (s\<lparr>continuousPlay := \<not> continuousPlay s\<rparr>)"
| "step s (FetchSettled r res) = fetchSurahData_settled r res s"
| "step s CanPlay = (if currentAyah s = None then s else handleCanPlay s)"
| "step s Ended = (if currentAyah s = None then s else run_effects s (handleNextAyah s))"
| "step s PlayRejected = run_effects s (s\<lparr>isPlaying := False\<rparr>)"

definition run :: "player \<Rightarrow> event list \<Rightarrow> player" where
  "run s evs = foldl step s evs"

text \<open>
  The state after mount, in a document whose URL resolution is \<open>resolve\<close>: the
  \<open>useState\<close> defaults, and the first run of the fetch effect for surah 1 and the
  default edition.
\<close>

definition mounted :: "(string \<Rightarrow> string) \<Rightarrow> player" where
  "mounted resolve =
     \<lparr>selectedSurahNum = 1, selectedEditionId = ''ar.alafasy'', surahData = None,
      currentAyahIndex = 0, isPlaying = False, isLoading = True, error = None,
      continuousPlay = True, autoPlayOnLoadRef = False,
      audioRef = \<lparr>src_attr = None, calls = [], resolveUrl = resolve\<rparr>,
      pending = [\<lparr>req_surah = 1, req_edition = ''ar.alafasy'', req_isPlaying = False\<rparr>]\<rparr>"

section \<open>Sample data\<close>

text \<open>
  A sample document, small provider answers and the states they lead to, for the
  concrete instances below. The document lies at \<open>https://tarteel.example/\<close>: a locator
  that is an absolute \<open>https\<close> URL reads back unchanged, any other is resolved against
  the document.
\<close>

definition sample_resolve :: "string \<Rightarrow> string" where
  "sample_resolve u = (if take 8 u = ''https://'' then u else ''https://tarteel.example/'' @ u)"

definition initial :: player where
  "initial = mounted sample_resolve"

definition mk_ayah :: "int \<Rightarrow> string \<Rightarrow> string \<Rightarrow> api_ayah" where
  "mk_ayah n url t = \<lparr>number = n, numberInSurah = n, audio = url, ayah_text = t\<rparr>"

definition sample_response :: "api_ayah list \<Rightarrow> http_result" where
  "sample_response xs =
     Response True ''OK'' (Parsed 200 (DataArray
       [\<lparr>edition_id = ''ar.alafasy'', ayahs = xs\<rparr>,
        \<lparr>edition_id = ''quran-uthmani'', ayahs = xs\<rparr>,
        \<lparr>edition_id = ''en.sahih'', ayahs = xs\<rparr>]))"

definition surah_a :: "api_ayah list" where
  "surah_a = [mk_ayah 1 ''https://cdn.example/a1.mp3'' ''t1'',
              mk_ayah 2 ''https://cdn.example/a2.mp3'' ''t2'']"

definition surah_b :: "api_ayah list" where
  "surah_b = [mk_ayah 8 ''https://cdn.example/b1.mp3'' ''u1'',
              mk_ayah 9 ''https://cdn.example/b2.mp3'' [],
              mk_ayah 10 ''https://cdn.example/b3.mp3'' ''u3'']"

text \<open>A surah whose only ayah has a relative locator.\<close>

definition surah_rel :: "api_ayah list" where
  "surah_rel = [mk_ayah 1 ''a1.mp3'' ''t1'']"

definition req :: "int \<Rightarrow> bool \<Rightarrow> fetch_req" where
  "req n p = \<lparr>req_surah = n, req_edition = ''ar.alafasy'', req_isPlaying = p\<rparr>"

text \<open>Surah 1 loaded, first ayah, paused.\<close>

definition loaded :: player where
  "loaded = run initial [FetchSettled (req 1 False) (sample_response surah_a)]"

text \<open>Surah 1 loaded, last ayah, playing.\<close>

definition playing_last :: player where
  "playing_last = run loaded [TogglePlayPause, NextAyah, CanPlay]"

text \<open>Surah 114 loaded, last ayah, playing, continuous play switched off.\<close>

definition at_end :: player where
  "at_end = run loaded [SelectSurah 114, FetchSettled (req 114 False) (sample_response surah_a),
                        TogglePlayPause, NextAyah, CanPlay, ToggleContinuousPlay]"

text \<open>Surah 2 loaded, first ayah, paused.\<close>

definition second_loaded :: player where
  "second_loaded = run loaded [NextSurah, FetchSettled (req 2 False) (sample_response surah_b)]"

text \<open>The number of \<open>load()\<close> calls made on the audio element so far.\<close>

definition loads :: "player \<Rightarrow> nat" where
  "loads s = length (filter (\<lambda>c. c = Load) (calls (audioRef s)))"

text \<open>
  Surah 2 selected and loaded, second ayah, while the first fetch (for surah 1) is still
  in flight.
\<close>

definition stale_before :: player where
  "stale_before =
     run initial [SelectSurah 2, FetchSettled (req 2 False) (sample_response surah_b), NextAyah]"

text \<open>Surah 1 with the relative locator loaded, paused.\<close>

definition loaded_rel :: player where
  "loaded_rel = run initial [FetchSettled (req 1 False) (sample_response surah_rel)]"

text \<open>
  Play is pressed while the first fetch is in flight; the data arrive, the audio effect
  loads the first ayah and sets the flag, and the first \<open>canplay\<close> starts playback.
\<close>

definition first_ready :: player where
  "first_ready =
     run initial [TogglePlayPause, FetchSettled (req 1 False) (sample_response surah_a), CanPlay]"

text \<open>
  Then the user selects surah 2 and goes back to surah 1 before any answer arrives, and
  the answer for surah 1 arrives.
\<close>

definition rearmed :: player where
  "rearmed =
     run first_ready
       [SelectSurah 2, SelectSurah 1, FetchSettled (req 1 True) (sample_response surah_a)]"

section \<open>Properties of states and events\<close>

text \<open>
  \<open>index_bounded\<close>: with data loaded, the index points at one of its ayahs, or is 0
  when there are none.
  \<open>offered_edition\<close>: an edition the user selects is one that \<open>getAudioEditions\<close> keeps,
  whose identifier starts with \<open>ar.\<close>.
\<close>

definition index_bounded :: "player \<Rightarrow> bool" where
  "index_bounded s =
     (case surahData s of
        None \<Rightarrow> True
      | Some d \<Rightarrow>
          0 \<le> currentAyahIndex s \<and>
          currentAyahIndex s \<le> max 0 (int (length (ayahs d)) - 1))"

definition offered_edition :: "event \<Rightarrow> bool" where
  "offered_edition ev = (case ev of SelectEdition e \<Rightarrow> take 3 e = ''ar.'' | _ \<Rightarrow> True)"

section \<open>What the effects leave alone\<close>

lemma audioEffect_fields:
  "surahData (audioEffect s) = surahData s"
  "currentAyahIndex (audioEffect s) = currentAyahIndex s"
  "isPlaying (audioEffect s) = isPlaying s"
  "selectedSurahNum (audioEffect s) = selectedSurahNum s"
  "selectedEditionId (audioEffect s) = selectedEditionId s"
  "continuousPlay (audioEffect s) = continuousPlay s"
  "isLoading (audioEffect s) = isLoading s"
  "error (audioEffect s) = error s"
  "pending (audioEffect s) = pending s"
  by (simp_all add: audioEffect_def Let_def split: option.split)

lemma fetchSurahData_fields:
  "surahData (fetchSurahData s) = surahData s"
  "currentAyahIndex (fetchSurahData s) = currentAyahIndex s"
  "isPlaying (fetchSurahData s) = isPlaying s"
  "selectedSurahNum (fetchSurahData s) = selectedSurahNum s"
  "selectedEditionId (fetchSurahData s) = selectedEditionId s"
  "continuousPlay (fetchSurahData s) = continuousPlay s"
  "autoPlayOnLoadRef (fetchSurahData s) = autoPlayOnLoadRef s"
  "audioRef (fetchSurahData s) = audioRef s"
  by (simp_all add: fetchSurahData_def)

lemma run_effects_fields:
  "surahData (run_effects s s') = surahData s'"
  "currentAyahIndex (run_effects s s') = currentAyahIndex s'"
  "isPlaying (run_effects s s') = isPlaying s'"
  "selectedSurahNum (run_effects s s') = selectedSurahNum s'"
  "selectedEditionId (run_effects s s') = selectedEditionId s'"
  "continuousPlay (run_effects s s') = continuousPlay s'"
  by (simp_all add: run_effects_def Let_def audioEffect_fields fetchSurahData_fields)

lemma run_effects_same: "run_effects s s = s"
  by (simp add: run_effects_def selection_changed_def audio_deps_changed_def)

lemma run_effects_pending_same_selection:
  "\<not> selection_changed s s' \<Longrightarrow> pending (run_effects s s') = pending s'"
  by (simp add: run_effects_def Let_def audioEffect_fields)

lemma currentAyah_None: "surahData s = None \<Longrightarrow> currentAyah s = None"
  by (simp add: currentAyah_def)

lemma currentAyah_audioEffect: "currentAyah (audioEffect s) = currentAyah s"
  by (simp add: currentAyah_def audioEffect_fields split: option.split)

section \<open>Handlers and effects, case by case\<close>

lemma step_NextAyah_continue:
  assumes "surahData s = Some d"
    and "currentAyahIndex s \<ge> int (length (ayahs d)) - 1"
    and "continuousPlay s"
    and "selectedSurahNum s < TOTAL_SURAHS"
  shows "handleNextAyah s = s\<lparr>selectedSurahNum := selectedSurahNum s + 1\<rparr>"
  using assms by (simp add: handleNextAyah_def)

lemma run_effects_new_selection:
  assumes "selectedSurahNum s' \<noteq> selectedSurahNum s"
    and "selectedSurahNum s' \<noteq> 0" and "selectedEditionId s' \<noteq> []"
  shows "pending (run_effects s s') =
           pending s' @ [\<lparr>req_surah = selectedSurahNum s', req_edition = selectedEditionId s',
                           req_isPlaying = isPlaying s'\<rparr>]"
  using assms
  by (auto simp: run_effects_def Let_def selection_changed_def audio_deps_changed_def
      audioEffect_fields fetchSurahData_def)

lemma settled_success:
  assumes "r \<in> set (pending s)"
    and "getSurahData (req_surah r) (req_edition r) res = Inr data"
  shows "surahData (fetchSurahData_settled r res s) = Some data"
    and "currentAyahIndex (fetchSurahData_settled r res s) = 0"
    and "selectedSurahNum (fetchSurahData_settled r res s) = selectedSurahNum s"
    and "selectedEditionId (fetchSurahData_settled r res s) = selectedEditionId s"
    and "isPlaying (fetchSurahData_settled r res s) = isPlaying s"
    and "req_isPlaying r \<Longrightarrow> autoPlayOnLoadRef (fetchSurahData_settled r res s)"
  using assms
  by (simp_all add: fetchSurahData_settled_def Let_def audioEffect_fields)
     (simp add: audioEffect_def Let_def split: option.split)

lemma step_PrevAyah_back:
  assumes "currentAyahIndex s = 0" and "selectedSurahNum s > 1"
  shows "handlePrevAyah s = s\<lparr>selectedSurahNum := selectedSurahNum s - 1\<rparr>"
  using assms by (simp add: handlePrevAyah_def)

lemma handleCanPlay_clears: "\<not> autoPlayOnLoadRef (handleCanPlay s)"
  by (simp add: handleCanPlay_def)

lemma handleCanPlay_unset: "\<not> autoPlayOnLoadRef s \<Longrightarrow> handleCanPlay s = s"
  by (simp add: handleCanPlay_def)

lemma currentAyah_handleCanPlay: "currentAyah (handleCanPlay s) = currentAyah s"
  by (simp add: currentAyah_def handleCanPlay_def split: option.split)

lemma canplay_repeat: "\<not> autoPlayOnLoadRef s \<Longrightarrow> run s (replicate n CanPlay) = s"
  by (induction n) (simp_all add: run_def handleCanPlay_unset)

lemma audioEffect_resolveUrl: "resolveUrl (audioRef (audioEffect s)) = resolveUrl (audioRef s)"
  by (simp add: audioEffect_def Let_def playAudio_def split: option.split)

lemma audioEffect_same_src:
  assumes "currentAyah s = Some cur" and "src (audioRef s) = audio cur"
  shows "calls (audioRef (audioEffect s)) =
           calls (audioRef s) @ [if isPlaying s then Play else Pause]"
    and "src_attr (audioRef (audioEffect s)) = src_attr (audioRef s)"
  using assms by (simp_all add: audioEffect_def Let_def playAudio_def)

lemma audioEffect_new_src:
  assumes "currentAyah s = Some cur" and "src (audioRef s) \<noteq> audio cur"
  shows "src_attr (audioRef (audioEffect s)) = Some (audio cur)"
    and "calls (audioRef (audioEffect s)) =
           calls (audioRef s) @ [SetSrc (audio cur), Load] @ (if isPlaying s then [] else [Pause])"
    and "isPlaying s \<Longrightarrow> autoPlayOnLoadRef (audioEffect s)"
  using assms by (simp_all add: audioEffect_def Let_def playAudio_def)

text \<open>After the effect, a locator in resolved form is what \<open>src\<close> reads.\<close>

lemma audioEffect_src_resolved:
  assumes "currentAyah s = Some cur" and "resolveUrl (audioRef s) (audio cur) = audio cur"
  shows "src (audioRef (audioEffect s)) = audio cur"
proof (cases "src (audioRef s) = audio cur")
  case True
  then show ?thesis
    using audioEffect_same_src(2) [OF assms(1) True]
    by (simp add: src_def audioEffect_resolveUrl split: option.splits)
next
  case False
  then show ?thesis
    using audioEffect_new_src(1) [OF assms(1) False] assms(2)
    by (simp add: src_def audioEffect_resolveUrl)
qed

section \<open>The index invariant, step by step\<close>

lemma index_bounded_same:
  "surahData s' = surahData s \<Longrightarrow> currentAyahIndex s' = currentAyahIndex s \<Longrightarrow>
   index_bounded s' = index_bounded s"
  by (simp add: index_bounded_def split: option.split)

lemma index_bounded_other_handlers:
  "index_bounded (handleNextSurah s) = index_bounded s"
  "index_bounded (handlePrevSurah s) = index_bounded s"
  "index_bounded (togglePlayPause s) = index_bounded s"
  "index_bounded (handleCanPlay s) = index_bounded s"
  by (rule index_bounded_same;
      simp add: handleNextSurah_def handlePrevSurah_def togglePlayPause_def handleCanPlay_def)+

lemma index_bounded_updates:
  "index_bounded (s\<lparr>selectedSurahNum := n\<rparr>) = index_bounded s"
  "index_bounded (s\<lparr>selectedEditionId := e\<rparr>) = index_bounded s"
  "index_bounded (s\<lparr>continuousPlay := c\<rparr>) = index_bounded s"
  "index_bounded (s\<lparr>isPlaying := p\<rparr>) = index_bounded s"
  by (rule index_bounded_same; simp)+

lemma index_bounded_run_effects: "index_bounded (run_effects s s') = index_bounded s'"
  by (rule index_bounded_same) (simp_all add: run_effects_fields)

lemma index_bounded_handleNextAyah: "index_bounded s \<Longrightarrow> index_bounded (handleNextAyah s)"
  by (auto simp: index_bounded_def handleNextAyah_def split: option.splits)

lemma index_bounded_handlePrevAyah: "index_bounded s \<Longrightarrow> index_bounded (handlePrevAyah s)"
  by (auto simp: index_bounded_def handlePrevAyah_def split: option.splits)

lemma index_bounded_settled:
  assumes "index_bounded s"
  shows "index_bounded (fetchSurahData_settled r res s)"
proof (cases "r \<in> set (pending s)")
  case False
  then show ?thesis
    using assms by (simp add: fetchSurahData_settled_def)
next
  case True
  show ?thesis
  proof (cases "getSurahData (req_surah r) (req_edition r) res")
    case (Inl msg)
    then show ?thesis
      using True
      by (simp add: fetchSurahData_settled_def Let_def index_bounded_def run_effects_fields)
  next
    case (Inr data)
    then show ?thesis
      using settled_success(1,2) [OF True Inr]
      by (simp add: index_bounded_def)
  qed
qed

lemma index_bounded_step:
  assumes "index_bounded s"
  shows "index_bounded (step s ev)"
proof (cases ev)
  case (FetchSettled r res)
  then show ?thesis
    using assms index_bounded_settled by simp
qed (use assms in \<open>simp_all add: index_bounded_run_effects index_bounded_handleNextAyah
      index_bounded_handlePrevAyah index_bounded_other_handlers index_bounded_updates\<close>)

lemma index_bounded_run: "index_bounded s \<Longrightarrow> index_bounded (run s evs)"
proof (induction evs arbitrary: s)
  case Nil
  then show ?case by (simp add: run_def)
next
  case (Cons ev evs)
  from Cons.prems have "index_bounded (step s ev)"
    by (rule index_bounded_step)
  with Cons.IH [of "step s ev"] show ?case
    by (simp add: run_def)
qed

section \<open>A fetch that commits data with a first ayah\<close>

text \<open>
  The commit leaves the audio element to the audio effect, which finds the first ayah of
  the new data as the current one.
\<close>

lemma settled_success_audio:
  assumes "r \<in> set (pending s)"
    and "getSurahData (req_surah r) (req_edition r) res = Inr data"
    and "ayahs data \<noteq> []"
  shows "\<exists>c. fetchSurahData_settled r res s = audioEffect c \<and>
             currentAyah c = Some (ayahs data ! 0) \<and> audioRef c = audioRef s \<and>
             isPlaying c = isPlaying s"
proof -
  let ?c = "s\<lparr>pending := remove1 r (pending s), surahData := Some data, currentAyahIndex := 0,
              autoPlayOnLoadRef := (if req_isPlaying r then True else autoPlayOnLoadRef s),
              isLoading := False\<rparr>"
  have "fetchSurahData_settled r res s = audioEffect ?c"
    using assms(1,2) by (simp add: fetchSurahData_settled_def Let_def)
  moreover have "currentAyah ?c = Some (ayahs data ! 0)"
    using assms(3) by (simp add: currentAyah_def)
  ultimately show ?thesis
    by (intro exI [of _ ?c]) simp
qed

lemma settled_success_same_src:
  assumes "r \<in> set (pending s)"
    and "getSurahData (req_surah r) (req_edition r) res = Inr data"
    and "ayahs data \<noteq> []"
    and "src (audioRef s) = audio (ayahs data ! 0)"
  shows "calls (audioRef (fetchSurahData_settled r res s)) =
           calls (audioRef s) @ [if isPlaying s then Play else Pause]"
proof -
  obtain c where c: "fetchSurahData_settled r res s = audioEffect c"
      "currentAyah c = Some (ayahs data ! 0)" "audioRef c = audioRef s" "isPlaying c = isPlaying s"
    using settled_success_audio [OF assms(1,2,3)] by blast
  have "src (audioRef c) = audio (ayahs data ! 0)"
    using assms(4) c(3) by simp
  from audioEffect_same_src(1) [OF c(2) this] show ?thesis
    by (simp add: c)
qed

lemma settled_success_new_src:
  assumes "r \<in> set (pending s)"
    and "getSurahData (req_surah r) (req_edition r) res = Inr data"
    and "ayahs data \<noteq> []"
    and "src (audioRef s) \<noteq> audio (ayahs data ! 0)"
  shows "calls (audioRef (fetchSurahData_settled r res s)) =
           calls (audioRef s) @ [SetSrc (audio (ayahs data ! 0)), Load] @
             (if isPlaying s then [] else [Pause])"
    and "isPlaying s \<Longrightarrow> autoPlayOnLoadRef (fetchSurahData_settled r res s)"
    and "currentAyah (fetchSurahData_settled r res s) = Some (ayahs data ! 0)"
proof -
  obtain c where c: "fetchSurahData_settled r res s = audioEffect c"
      "currentAyah c = Some (ayahs data ! 0)" "audioRef c = audioRef s" "isPlaying c = isPlaying s"
    using settled_success_audio [OF assms(1,2,3)] by blast
  have n: "src (audioRef c) \<noteq> audio (ayahs data ! 0)"
    using assms(4) c(3) by simp
  from audioEffect_new_src(2) [OF c(2) n]
  show "calls (audioRef (fetchSurahData_settled r res s)) =
           calls (audioRef s) @ [SetSrc (audio (ayahs data ! 0)), Load] @
             (if isPlaying s then [] else [Pause])"
    by (simp add: c)
  from audioEffect_new_src(3) [OF c(2) n]
  show "isPlaying s \<Longrightarrow> autoPlayOnLoadRef (fetchSurahData_settled r res s)"
    by (simp add: c)
  show "currentAyah (fetchSurahData_settled r res s) = Some (ayahs data ! 0)"
    by (simp add: c(1) currentAyah_audioEffect c(2))
qed

lemma step_CanPlay_flag_set:
  assumes "currentAyah s \<noteq> None" and "autoPlayOnLoadRef s"
  shows "calls (audioRef (step s CanPlay)) = calls (audioRef s) @ [Play]"
    and "\<not> autoPlayOnLoadRef (step s CanPlay)"
  using assms by (cases "currentAyah s"; simp add: handleCanPlay_def playAudio_def)+

text \<open>
  A \<open>canplay\<close> right after another one finds the flag clear and does nothing, however
  often it is repeated.
\<close>

lemma canplay_consecutive:
  assumes "currentAyah s \<noteq> None"
  shows "step (step s CanPlay) CanPlay = step s CanPlay"
    and "run (step s CanPlay) (replicate n CanPlay) = step s CanPlay"
proof -
  have st: "step s CanPlay = handleCanPlay s"
    using assms by (cases "currentAyah s") simp_all
  have cl: "\<not> autoPlayOnLoadRef (step s CanPlay)"
    by (simp only: st handleCanPlay_clears not_False_eq_True)
  have "step (handleCanPlay s) CanPlay = handleCanPlay s"
    by (simp add: handleCanPlay_unset handleCanPlay_clears)
  then show "step (step s CanPlay) CanPlay = step s CanPlay"
    by (simp only: st)
  show "run (step s CanPlay) (replicate n CanPlay) = step s CanPlay"
    using cl by (rule canplay_repeat)
qed

section \<open>Where the autoplay flag is set by the effects\<close>

lemma audioEffect_flag_paused:
  "\<not> isPlaying s \<Longrightarrow> autoPlayOnLoadRef (audioEffect s) = autoPlayOnLoadRef s"
  by (simp add: audioEffect_def Let_def split: option.split)

lemma run_effects_flag_paused:
  "\<not> isPlaying s' \<Longrightarrow> autoPlayOnLoadRef (run_effects s s') = autoPlayOnLoadRef s'"
  by (simp add: run_effects_def Let_def audioEffect_flag_paused fetchSurahData_fields)

lemma settled_sets_flag_when_was_playing:
  assumes "autoPlayOnLoadRef (fetchSurahData_settled r res s)" and "\<not> autoPlayOnLoadRef s"
  shows "req_isPlaying r \<or> isPlaying s"
proof (rule ccontr)
  assume a: "\<not> (req_isPlaying r \<or> isPlaying s)"
  have "autoPlayOnLoadRef (fetchSurahData_settled r res s) = autoPlayOnLoadRef s"
  proof (cases "getSurahData (req_surah r) (req_edition r) res")
    case (Inl msg)
    then show ?thesis
      by (simp add: fetchSurahData_settled_def Let_def run_effects_flag_paused)
  next
    case (Inr data)
    then show ?thesis
      using a by (simp add: fetchSurahData_settled_def Let_def audioEffect_flag_paused)
  qed
  then show False
    using assms by simp
qed

section \<open>An edition is always selected\<close>

lemma selectedEditionId_settled:
  "selectedEditionId (fetchSurahData_settled r res s) = selectedEditionId s"
  by (simp add: fetchSurahData_settled_def Let_def run_effects_fields audioEffect_fields
      split: sum.split)

lemma selectedEditionId_step:
  assumes "selectedEditionId s \<noteq> []" and "offered_edition ev"
  shows "selectedEditionId (step s ev) \<noteq> []"
proof (cases ev)
  case (SelectEdition e)
  then have "take 3 e = ''ar.''"
    using assms(2) by (simp add: offered_edition_def)
  then have "e \<noteq> []"
    by auto
  then show ?thesis
    using SelectEdition by (simp add: run_effects_fields)
qed (use assms(1) in \<open>simp_all add: run_effects_fields selectedEditionId_settled
      handleNextAyah_def handlePrevAyah_def handleNextSurah_def handlePrevSurah_def
      togglePlayPause_def handleCanPlay_def split: option.split\<close>)

lemma selectedEditionId_run:
  "selectedEditionId s \<noteq> [] \<Longrightarrow> list_all offered_edition evs \<Longrightarrow>
   selectedEditionId (run s evs) \<noteq> []"
proof (induction evs arbitrary: s)
  case Nil
  then show ?case by (simp add: run_def)
next
  case (Cons ev evs)
  from Cons.prems have "selectedEditionId (step s ev) \<noteq> []"
    by (simp add: selectedEditionId_step)
  with Cons.prems Cons.IH [of "step s ev"] show ?case
    by (simp add: run_def)
qed

lemma edition_always_selected:
  "list_all offered_edition evs \<Longrightarrow> selectedEditionId (run (mounted resolve) evs) \<noteq> []"
  by (rule selectedEditionId_run) (simp_all add: mounted_def)


text \<open>Unfolding the model on concrete inputs.\<close>

lemmas model_defs = run_def initial_def mounted_def sample_resolve_def src_def req_def
  sample_response_def surah_a_def surah_b_def surah_rel_def
  mk_ayah_def loaded_def playing_last_def at_end_def second_loaded_def stale_before_def
  loaded_rel_def first_ready_def rearmed_def loads_def fetchSurahData_settled_def getSurahData_def
  combinedAyahs_def combine_def text_or_def audioEffect_def currentAyah_def run_effects_def
  selection_changed_def audio_deps_changed_def fetchSurahData_def handleNextAyah_def
  handlePrevAyah_def handleNextSurah_def handlePrevSurah_def togglePlayPause_def
  handleCanPlay_def playAudio_def TOTAL_SURAHS_def Let_def
  api_ayah.extend_def ayah.fields_def

section \<open>C1: the index stays inside the loaded data\<close>

text \<open>
  C1, as stated, fails: nothing in \<open>getSurahData\<close> or in the commit refuses data with no
  ayahs, and the commit sets the index to 0 all the same. Here the first fetch resolves
  to three editions without ayahs; \<open>surahData\<close> is non-null, its length is 0 and the
  index 0 is not in \<open>[0, -1]\<close>.
\<close>

theorem empty_bundle_index_out_of_range:
  "surahData (run initial [FetchSettled (req 1 False) (sample_response [])])
     = Some \<lparr>edition_id = ''ar.alafasy'', ayahs = []\<rparr> \<and>
   currentAyahIndex (run initial [FetchSettled (req 1 False) (sample_response [])]) = 0 \<and>
   \<not> (0 \<le> currentAyahIndex (run initial [FetchSettled (req 1 False) (sample_response [])]) \<and>
      currentAyahIndex (run initial [FetchSettled (req 1 False) (sample_response [])])
        \<le> int (length (ayahs \<lparr>edition_id = ''ar.alafasy'', ayahs = ([] :: ayah list)\<rparr>)) - 1)"
  by (simp add: model_defs)

text \<open>
  C1, amended. In every state reached after mount by any sequence of events (navigation,
  selection, play and pause, audio events, settled fetches, whatever they delivered), if
  \<open>surahData\<close> is non-null and has at least one ayah then \<open>currentAyahIndex\<close> lies in
  \<open>[0, surahData.ayahs.length - 1]\<close>; if it is non-null and has no ayah the index is 0.
\<close>

theorem index_in_range_reachable:
  assumes "surahData (run (mounted resolve) evs) = Some d"
  shows "(ayahs d \<noteq> [] \<longrightarrow>
            0 \<le> currentAyahIndex (run (mounted resolve) evs) \<and>
            currentAyahIndex (run (mounted resolve) evs) \<le> int (length (ayahs d)) - 1) \<and>
         (ayahs d = [] \<longrightarrow> currentAyahIndex (run (mounted resolve) evs) = 0)"
proof -
  have "index_bounded (mounted resolve)"
    by (simp add: index_bounded_def mounted_def)
  then have "index_bounded (run (mounted resolve) evs)"
    by (rule index_bounded_run)
  then have b: "0 \<le> currentAyahIndex (run (mounted resolve) evs) \<and>
      currentAyahIndex (run (mounted resolve) evs) \<le> max 0 (int (length (ayahs d)) - 1)"
    using assms by (simp add: index_bounded_def)
  have "0 < length (ayahs d)" if "ayahs d \<noteq> []"
    using that by simp
  then show ?thesis
    using b by (cases "ayahs d = []") auto
qed

text \<open>
  An instance: the first answer has no ayahs, the advance moves on to surah 2, whose
  three ayahs arrive; two steps forward and one back leave the index at 1 of 3.
\<close>

theorem index_in_range_reachable_witness:
  "surahData (run (mounted sample_resolve)
     [FetchSettled (req 1 False) (sample_response []), NextAyah,
      FetchSettled (req 2 False) (sample_response surah_b), NextAyah, NextAyah, PrevAyah])
     = Some \<lparr>edition_id = ''ar.alafasy'', ayahs = combinedAyahs surah_b surah_b surah_b\<rparr> \<and>
   length (combinedAyahs surah_b surah_b surah_b) = 3 \<and>
   currentAyahIndex (run (mounted sample_resolve)
     [FetchSettled (req 1 False) (sample_response []), NextAyah,
      FetchSettled (req 2 False) (sample_response surah_b), NextAyah, NextAyah, PrevAyah]) = 1"
proof -
  let ?evs = "[FetchSettled (req 1 False) (sample_response []), NextAyah,
      FetchSettled (req 2 False) (sample_response surah_b), NextAyah, NextAyah, PrevAyah]"
  let ?d = "\<lparr>edition_id = ''ar.alafasy'', ayahs = combinedAyahs surah_b surah_b surah_b\<rparr>"
  have h1: "surahData (run (mounted sample_resolve) ?evs) = Some ?d"
    by (simp add: model_defs)
  have h2: "length (combinedAyahs surah_b surah_b surah_b) = 3"
    by (simp add: model_defs)
  have h3: "currentAyahIndex (run (mounted sample_resolve) ?evs) = 1"
    by (simp add: model_defs)
  show ?thesis
    using h1 h2 h3 index_in_range_reachable [OF h1] by simp
qed

section \<open>C2: a fetch that settles after the selection has moved on\<close>

text \<open>
  C2, as stated, fails: the settled fetch never looks at the selection of the moment.
  Surah 2 is selected and loaded, the cursor is on its second ayah, and the first fetch,
  issued for surah 1, resolves only now: its data replace those of surah 2 and the index
  goes back to 0, while surah 2 stays selected.
\<close>

theorem stale_fetch_mutates:
  "req 1 False \<in> set (pending stale_before) \<and>
   selectedSurahNum stale_before = 2 \<and> req_surah (req 1 False) = 1 \<and>
   currentAyahIndex stale_before = 1 \<and>
   currentAyahIndex (step stale_before (FetchSettled (req 1 False) (sample_response surah_a))) = 0 \<and>
   surahData (step stale_before (FetchSettled (req 1 False) (sample_response surah_a)))
     \<noteq> surahData stale_before \<and>
   selectedSurahNum (step stale_before (FetchSettled (req 1 False) (sample_response surah_a))) = 2"
  by (simp add: model_defs)

text \<open>
  C2, amended. A fetch in flight that settles is applied whatever the selection has
  become since it was issued: if it resolves, \<open>surahData\<close> becomes its data,
  \<open>currentAyahIndex\<close> becomes 0 and \<open>isPlaying\<close> is kept; if it fails, \<open>surahData\<close> becomes
  null, \<open>isPlaying\<close> false and the index is kept. In both cases the selection
  (\<open>selectedSurahNum\<close>, \<open>selectedEditionId\<close>) is left as it was.
\<close>

theorem settled_fetch_is_applied:
  assumes "r \<in> set (pending s)"
  shows "(case getSurahData (req_surah r) (req_edition r) res of
            Inr data \<Rightarrow>
              surahData (step s (FetchSettled r res)) = Some data \<and>
              currentAyahIndex (step s (FetchSettled r res)) = 0 \<and>
              isPlaying (step s (FetchSettled r res)) = isPlaying s
          | Inl msg \<Rightarrow>
              surahData (step s (FetchSettled r res)) = None \<and>
              currentAyahIndex (step s (FetchSettled r res)) = currentAyahIndex s \<and>
              \<not> isPlaying (step s (FetchSettled r res))) \<and>
         selectedSurahNum (step s (FetchSettled r res)) = selectedSurahNum s \<and>
         selectedEditionId (step s (FetchSettled r res)) = selectedEditionId s"
proof (cases "getSurahData (req_surah r) (req_edition r) res")
  case (Inl msg)
  then show ?thesis
    using assms by (simp add: fetchSurahData_settled_def Let_def run_effects_fields)
next
  case (Inr data)
  then show ?thesis
    using settled_success [OF assms Inr] by simp
qed

text \<open>An instance: the late answer for surah 1 of the state above.\<close>

theorem settled_fetch_is_applied_witness:
  "req 1 False \<in> set (pending stale_before) \<and>
   (req_surah (req 1 False), req_edition (req 1 False))
     \<noteq> (selectedSurahNum stale_before, selectedEditionId stale_before) \<and>
   surahData (step stale_before (FetchSettled (req 1 False) (sample_response surah_a)))
     = Some \<lparr>edition_id = ''ar.alafasy'', ayahs = combinedAyahs surah_a surah_a surah_a\<rparr> \<and>
   currentAyahIndex (step stale_before (FetchSettled (req 1 False) (sample_response surah_a))) = 0 \<and>
   selectedSurahNum (step stale_before (FetchSettled (req 1 False) (sample_response surah_a))) = 2"
proof -
  have h1: "req 1 False \<in> set (pending stale_before)"
    by (simp add: model_defs)
  have h2: "(req_surah (req 1 False), req_edition (req 1 False))
              \<noteq> (selectedSurahNum stale_before, selectedEditionId stale_before)"
    by (simp add: model_defs)
  have h3: "getSurahData (req_surah (req 1 False)) (req_edition (req 1 False))
              (sample_response surah_a)
            = Inr \<lparr>edition_id = ''ar.alafasy'', ayahs = combinedAyahs surah_a surah_a surah_a\<rparr>"
    by (simp add: model_defs)
  have h4: "selectedSurahNum stale_before = 2"
    by (simp add: model_defs)
  show ?thesis
    using h1 h2 h4 settled_fetch_is_applied [OF h1, of "sample_response surah_a"]
    by (simp add: h3)
qed

section \<open>C3: advance across a chapter boundary\<close>

text \<open>
  C3. For a chapter \<open>k\<close> with \<open>1 \<le> k < 114\<close>, \<open>handleNextAyah\<close> at the last ayah with
  continuous play on sets \<open>selectedSurahNum\<close> to \<open>k + 1\<close> and the fetch effect issues the
  fetch \<open>r\<close> for \<open>k + 1\<close>, holding the \<open>isPlaying\<close> of that moment. When that fetch commits
  data, the cursor is \<open>(k + 1, 0)\<close> on the new data, and if \<open>isPlaying\<close> was true before
  the transition the autoplay flag is set and playback resumes on the first ayah of the
  new data: if the element's \<open>src\<close> already reads as that ayah's locator the effect calls
  \<open>play()\<close> at once; otherwise it assigns the locator, calls \<open>load()\<close>, and the next
  \<open>canplay\<close> calls \<open>play()\<close> and clears the flag. An edition is selected in every state
  the interface reaches (\<open>edition_always_selected\<close>).
\<close>

theorem advance_at_chapter_end_continues:
  assumes "surahData s = Some d"
    and "currentAyahIndex s \<ge> int (length (ayahs d)) - 1"
    and "continuousPlay s"
    and "1 \<le> selectedSurahNum s" and "selectedSurahNum s < TOTAL_SURAHS"
    and "selectedEditionId s \<noteq> []"
    and "r = \<lparr>req_surah = selectedSurahNum s + 1, req_edition = selectedEditionId s,
               req_isPlaying = isPlaying s\<rparr>"
    and "getSurahData (selectedSurahNum s + 1) (selectedEditionId s) res = Inr data"
  shows "selectedSurahNum (step s NextAyah) = selectedSurahNum s + 1 \<and>
         r \<in> set (pending (step s NextAyah)) \<and>
         selectedSurahNum (step (step s NextAyah) (FetchSettled r res)) = selectedSurahNum s + 1 \<and>
         currentAyahIndex (step (step s NextAyah) (FetchSettled r res)) = 0 \<and>
         surahData (step (step s NextAyah) (FetchSettled r res)) = Some data \<and>
         (isPlaying s \<longrightarrow> autoPlayOnLoadRef (step (step s NextAyah) (FetchSettled r res))) \<and>
         (isPlaying s \<and> ayahs data \<noteq> [] \<longrightarrow>
            (if src (audioRef (step s NextAyah)) = audio (ayahs data ! 0)
             then calls (audioRef (step (step s NextAyah) (FetchSettled r res))) =
                    calls (audioRef (step s NextAyah)) @ [Play]
             else calls (audioRef (step (step s NextAyah) (FetchSettled r res))) =
                    calls (audioRef (step s NextAyah)) @ [SetSrc (audio (ayahs data ! 0)), Load] \<and>
                  calls (audioRef (step (step (step s NextAyah) (FetchSettled r res)) CanPlay)) =
                    calls (audioRef (step (step s NextAyah) (FetchSettled r res))) @ [Play] \<and>
                  \<not> autoPlayOnLoadRef
                      (step (step (step s NextAyah) (FetchSettled r res)) CanPlay)))"
proof -
  let ?s' = "s\<lparr>selectedSurahNum := selectedSurahNum s + 1\<rparr>"
  let ?s1 = "step s NextAyah"
  let ?s2 = "step ?s1 (FetchSettled r res)"
  have h: "handleNextAyah s = ?s'"
    using assms(1,2,3,5) by (rule step_NextAyah_continue)
  have sel: "selectedSurahNum ?s1 = selectedSurahNum s + 1"
    by (simp add: h run_effects_fields)
  have "pending (run_effects s ?s') = pending ?s' @ [r]"
    using assms(4,6,7) run_effects_new_selection [of ?s' s] by simp
  then have mem: "r \<in> set (pending ?s1)"
    by (simp add: h)
  have ok: "getSurahData (req_surah r) (req_edition r) res = Inr data"
    using assms(7,8) by simp
  have playing: "isPlaying s \<Longrightarrow> req_isPlaying r"
    using assms(7) by simp
  have p1: "isPlaying ?s1 = isPlaying s"
    by (simp add: h run_effects_fields)
  have s2: "?s2 = fetchSurahData_settled r res ?s1"
    by simp
  have cursor: "selectedSurahNum ?s2 = selectedSurahNum s + 1 \<and> currentAyahIndex ?s2 = 0 \<and>
      surahData ?s2 = Some data \<and> (isPlaying s \<longrightarrow> autoPlayOnLoadRef ?s2)"
    using sel settled_success [OF mem ok] playing by simp
  have resume: "calls (audioRef ?s2) = calls (audioRef ?s1) @ [Play]"
    if "isPlaying s" and "ayahs data \<noteq> []"
      and "src (audioRef ?s1) = audio (ayahs data ! 0)"
    using settled_success_same_src [OF mem ok that(2,3)] that(1) p1
    by (simp only: s2) simp
  have reload: "calls (audioRef ?s2) =
        calls (audioRef ?s1) @ [SetSrc (audio (ayahs data ! 0)), Load] \<and>
      calls (audioRef (step ?s2 CanPlay)) = calls (audioRef ?s2) @ [Play] \<and>
      \<not> autoPlayOnLoadRef (step ?s2 CanPlay)"
    if "isPlaying s" and "ayahs data \<noteq> []"
      and n: "src (audioRef ?s1) \<noteq> audio (ayahs data ! 0)"
  proof -
    have pl: "isPlaying ?s1"
      using that(1) p1 by simp
    have c: "calls (audioRef ?s2) =
        calls (audioRef ?s1) @ [SetSrc (audio (ayahs data ! 0)), Load]"
      using settled_success_new_src(1) [OF mem ok that(2) n] pl
      by (simp only: s2) simp
    have f: "autoPlayOnLoadRef ?s2"
      using settled_success_new_src(2) [OF mem ok that(2) n pl] by (simp only: s2)
    have a: "currentAyah ?s2 \<noteq> None"
      using settled_success_new_src(3) [OF mem ok that(2) n] by (simp only: s2) simp
    show ?thesis
      using c step_CanPlay_flag_set [OF a f] by blast
  qed
  show ?thesis
    using sel mem cursor resume reload by (simp only: if_split) blast
qed

text \<open>
  An instance: surah 1 playing its last ayah; the advance requests surah 2, whose data
  arrive with a first ayah that is not the loaded source.
\<close>

theorem advance_at_chapter_end_continues_witness:
  "selectedSurahNum playing_last = 1 \<and> currentAyahIndex playing_last = 1 \<and>
   map_option (\<lambda>d. length (ayahs d)) (surahData playing_last) = Some 2 \<and>
   isPlaying playing_last \<and> continuousPlay playing_last \<and>
   selectedSurahNum (step playing_last NextAyah) = 2 \<and>
   selectedSurahNum
     (step (step playing_last NextAyah) (FetchSettled (req 2 True) (sample_response surah_b))) = 2 \<and>
   currentAyahIndex
     (step (step playing_last NextAyah) (FetchSettled (req 2 True) (sample_response surah_b))) = 0 \<and>
   autoPlayOnLoadRef
     (step (step playing_last NextAyah) (FetchSettled (req 2 True) (sample_response surah_b))) \<and>
   src (audioRef (step playing_last NextAyah)) = ''https://cdn.example/a2.mp3'' \<and>
   calls (audioRef
     (step (step playing_last NextAyah) (FetchSettled (req 2 True) (sample_response surah_b)))) =
     calls (audioRef (step playing_last NextAyah)) @ [SetSrc ''https://cdn.example/b1.mp3'', Load] \<and>
   calls (audioRef
     (step (step (step playing_last NextAyah)
        (FetchSettled (req 2 True) (sample_response surah_b))) CanPlay)) =
     calls (audioRef
       (step (step playing_last NextAyah) (FetchSettled (req 2 True) (sample_response surah_b))))
       @ [Play]"
proof -
  let ?d = "\<lparr>edition_id = ''ar.alafasy'', ayahs = combinedAyahs surah_a surah_a surah_a\<rparr>"
  let ?data = "\<lparr>edition_id = ''ar.alafasy'', ayahs = combinedAyahs surah_b surah_b surah_b\<rparr>"
  have h1: "surahData playing_last = Some ?d"
    by (simp add: model_defs)
  have h2: "currentAyahIndex playing_last \<ge> int (length (ayahs ?d)) - 1"
    by (simp add: model_defs)
  have h3: "continuousPlay playing_last"
    by (simp add: model_defs)
  have h4: "1 \<le> selectedSurahNum playing_last"
    by (simp add: model_defs)
  have h5: "selectedSurahNum playing_last < TOTAL_SURAHS"
    by (simp add: model_defs)
  have h6: "selectedEditionId playing_last \<noteq> []"
    by (simp add: model_defs)
  have h7: "req 2 True = \<lparr>req_surah = selectedSurahNum playing_last + 1,
              req_edition = selectedEditionId playing_last,
              req_isPlaying = isPlaying playing_last\<rparr>"
    by (simp add: model_defs)
  have h8: "getSurahData (selectedSurahNum playing_last + 1) (selectedEditionId playing_last)
              (sample_response surah_b) = Inr ?data"
    by (simp add: model_defs)
  have h9: "selectedSurahNum playing_last = 1 \<and> currentAyahIndex playing_last = 1 \<and>
            isPlaying playing_last \<and> length (ayahs ?d) = 2"
    by (simp add: model_defs)
  have h10: "src (audioRef (step playing_last NextAyah)) = ''https://cdn.example/a2.mp3''"
    by (simp add: model_defs)
  have h11: "ayahs ?data \<noteq> [] \<and> audio (ayahs ?data ! 0) = ''https://cdn.example/b1.mp3''"
    by (simp add: model_defs)
  show ?thesis
    using h1 h3 h9 h10 h11 advance_at_chapter_end_continues [OF h1 h2 h3 h4 h5 h6 h7 h8]
    by simp
qed

section \<open>C4: advance at the end, with nowhere to continue\<close>

text \<open>
  C4. \<open>handleNextAyah\<close> at the last ayah of the loaded surah, when continuous play is off
  or the surah is the last one (114), sets \<open>isPlaying\<close> to false and leaves
  \<open>selectedSurahNum\<close> and \<open>currentAyahIndex\<close> (and the edition, the data and the fetches
  in flight) as they were.
\<close>

theorem advance_at_end_stops:
  assumes "surahData s = Some d"
    and "currentAyahIndex s \<ge> int (length (ayahs d)) - 1"
    and "\<not> continuousPlay s \<or> selectedSurahNum s \<ge> TOTAL_SURAHS"
  shows "\<not> isPlaying (step s NextAyah) \<and>
         selectedSurahNum (step s NextAyah) = selectedSurahNum s \<and>
         currentAyahIndex (step s NextAyah) = currentAyahIndex s \<and>
         selectedEditionId (step s NextAyah) = selectedEditionId s \<and>
         surahData (step s NextAyah) = surahData s \<and>
         pending (step s NextAyah) = pending s"
proof -
  from assms have h: "handleNextAyah s = s\<lparr>isPlaying := False\<rparr>"
    by (auto simp: handleNextAyah_def)
  have "\<not> selection_changed s (s\<lparr>isPlaying := False\<rparr>)"
    by (simp add: selection_changed_def)
  then show ?thesis
    by (simp add: h run_effects_fields run_effects_pending_same_selection)
qed

text \<open>An instance: surah 114, second of two ayahs, playing, continuous play off.\<close>

theorem advance_at_end_stops_witness:
  "selectedSurahNum at_end = 114 \<and> currentAyahIndex at_end = 1 \<and>
   map_option (\<lambda>d. length (ayahs d)) (surahData at_end) = Some 2 \<and>
   \<not> continuousPlay at_end \<and> isPlaying at_end \<and>
   \<not> isPlaying (step at_end NextAyah) \<and>
   selectedSurahNum (step at_end NextAyah) = 114 \<and>
   currentAyahIndex (step at_end NextAyah) = 1"
proof -
  let ?d = "\<lparr>edition_id = ''ar.alafasy'', ayahs = combinedAyahs surah_a surah_a surah_a\<rparr>"
  have h1: "surahData at_end = Some ?d"
    by (simp add: model_defs)
  have h2: "currentAyahIndex at_end \<ge> int (length (ayahs ?d)) - 1"
    by (simp add: model_defs)
  have h3: "\<not> continuousPlay at_end \<or> selectedSurahNum at_end \<ge> TOTAL_SURAHS"
    by (simp add: model_defs)
  have h4: "selectedSurahNum at_end = 114 \<and> currentAyahIndex at_end = 1 \<and>
            \<not> continuousPlay at_end \<and> isPlaying at_end"
    by (simp add: model_defs)
  have h5: "length (ayahs ?d) = 2"
    by (simp add: model_defs)
  show ?thesis
    using h1 h4 h5 advance_at_end_stops [OF h1 h2 h3]
    by simp
qed

section \<open>C5: retreat across a chapter boundary\<close>

text \<open>
  C5. For a chapter \<open>k > 1\<close>, \<open>handlePrevAyah\<close> at ayah 0 sets \<open>selectedSurahNum\<close> to
  \<open>k - 1\<close> and the fetch effect issues the fetch \<open>r\<close> for \<open>k - 1\<close>; when that fetch commits
  data, the cursor is \<open>(k - 1, 0)\<close>: the first ayah of the previous chapter, whatever its
  length. At ayah 0 of chapter 1, \<open>handlePrevAyah\<close> changes nothing.
\<close>

theorem retreat_at_chapter_start:
  "(currentAyahIndex s = 0 \<and> selectedSurahNum s > 1 \<and> selectedEditionId s \<noteq> [] \<and>
    r = \<lparr>req_surah = selectedSurahNum s - 1, req_edition = selectedEditionId s,
          req_isPlaying = isPlaying s\<rparr> \<and>
    getSurahData (selectedSurahNum s - 1) (selectedEditionId s) res = Inr data \<longrightarrow>
      selectedSurahNum (step s PrevAyah) = selectedSurahNum s - 1 \<and>
      r \<in> set (pending (step s PrevAyah)) \<and>
      selectedSurahNum (step (step s PrevAyah) (FetchSettled r res)) = selectedSurahNum s - 1 \<and>
      currentAyahIndex (step (step s PrevAyah) (FetchSettled r res)) = 0 \<and>
      surahData (step (step s PrevAyah) (FetchSettled r res)) = Some data) \<and>
   (currentAyahIndex s = 0 \<and> selectedSurahNum s = 1 \<longrightarrow> step s PrevAyah = s)"
proof -
  have at_first: "step s PrevAyah = s"
    if a: "currentAyahIndex s = 0 \<and> selectedSurahNum s = 1"
  proof -
    from a have "handlePrevAyah s = s"
      by (simp add: handlePrevAyah_def)
    then show ?thesis
      by (simp add: run_effects_same)
  qed
  have to_prev: "selectedSurahNum (step s PrevAyah) = selectedSurahNum s - 1 \<and>
      r \<in> set (pending (step s PrevAyah)) \<and>
      selectedSurahNum (step (step s PrevAyah) (FetchSettled r res)) = selectedSurahNum s - 1 \<and>
      currentAyahIndex (step (step s PrevAyah) (FetchSettled r res)) = 0 \<and>
      surahData (step (step s PrevAyah) (FetchSettled r res)) = Some data"
    if a: "currentAyahIndex s = 0 \<and> selectedSurahNum s > 1 \<and> selectedEditionId s \<noteq> [] \<and>
      r = \<lparr>req_surah = selectedSurahNum s - 1, req_edition = selectedEditionId s,
            req_isPlaying = isPlaying s\<rparr> \<and>
      getSurahData (selectedSurahNum s - 1) (selectedEditionId s) res = Inr data"
  proof -
    let ?s' = "s\<lparr>selectedSurahNum := selectedSurahNum s - 1\<rparr>"
    have h: "handlePrevAyah s = ?s'"
      using a by (simp add: step_PrevAyah_back)
    have sel: "selectedSurahNum (step s PrevAyah) = selectedSurahNum s - 1"
      by (simp add: h run_effects_fields)
    have "pending (run_effects s ?s') = pending ?s' @ [r]"
      using a run_effects_new_selection [of ?s' s] by simp
    then have mem: "r \<in> set (pending (step s PrevAyah))"
      by (simp add: h)
    have ok: "getSurahData (req_surah r) (req_edition r) res = Inr data"
      using a by simp
    show ?thesis
      using sel mem settled_success [OF mem ok] by simp
  qed
  show ?thesis
    using at_first to_prev by blast
qed

text \<open>
  An instance: from the first ayah of surah 2 back to surah 1, which has two ayahs, and
  from the first ayah of surah 1 nowhere.
\<close>

theorem retreat_at_chapter_start_witness:
  "currentAyahIndex second_loaded = 0 \<and> selectedSurahNum second_loaded = 2 \<and>
   selectedSurahNum (step second_loaded PrevAyah) = 1 \<and>
   selectedSurahNum
     (step (step second_loaded PrevAyah) (FetchSettled (req 1 False) (sample_response surah_a))) = 1 \<and>
   currentAyahIndex
     (step (step second_loaded PrevAyah) (FetchSettled (req 1 False) (sample_response surah_a))) = 0 \<and>
   map_option (\<lambda>d. length (ayahs d))
     (surahData (step (step second_loaded PrevAyah)
        (FetchSettled (req 1 False) (sample_response surah_a)))) = Some 2 \<and>
   currentAyahIndex loaded = 0 \<and> selectedSurahNum loaded = 1 \<and>
   step loaded PrevAyah = loaded"
proof -
  let ?data = "\<lparr>edition_id = ''ar.alafasy'', ayahs = combinedAyahs surah_a surah_a surah_a\<rparr>"
  have h1: "currentAyahIndex second_loaded = 0 \<and> selectedSurahNum second_loaded > 1 \<and>
            selectedEditionId second_loaded \<noteq> [] \<and>
            req 1 False = \<lparr>req_surah = selectedSurahNum second_loaded - 1,
              req_edition = selectedEditionId second_loaded,
              req_isPlaying = isPlaying second_loaded\<rparr> \<and>
            getSurahData (selectedSurahNum second_loaded - 1) (selectedEditionId second_loaded)
              (sample_response surah_a) = Inr ?data"
    by (simp add: model_defs)
  have h2: "selectedSurahNum second_loaded = 2"
    by (simp add: model_defs)
  have h3: "currentAyahIndex loaded = 0 \<and> selectedSurahNum loaded = 1"
    by (simp add: model_defs)
  have h4: "length (ayahs ?data) = 2"
    by (simp add: model_defs)
  show ?thesis
    using h1 h2 h3 h4
      retreat_at_chapter_start [of second_loaded "req 1 False" "sample_response surah_a" ?data]
      retreat_at_chapter_start [of loaded]
    by simp
qed

section \<open>C6: the autoplay flag and the source\<close>


section \<open>C7: when the autoplay flag is set\<close>

text \<open>
  C7. The claim is that \<open>autoPlayOnLoadRef\<close> is never set while \<open>isPlaying\<close> is false.
  The audio effect keeps to this (\<open>audioEffect_sets_flag_when_playing\<close>), and the commit
  of a fetch sets the flag only under its own \<open>isPlaying\<close> test
  (\<open>settled_sets_flag_when_was_playing\<close>). \<open>handleNextAyah\<close> and
  \<open>handlePrevAyah\<close> do not test: with surah 1 loaded and paused on its first ayah, the
  advance sets the flag although \<open>isPlaying\<close> is false, and the next \<open>canplay\<close> calls
  \<open>play()\<close> while \<open>isPlaying\<close> is still false.
\<close>

theorem advance_while_paused_sets_autoplay:
  "\<not> isPlaying loaded \<and> \<not> autoPlayOnLoadRef loaded \<and>
   autoPlayOnLoadRef (step loaded NextAyah) \<and> \<not> isPlaying (step loaded NextAyah) \<and>
   calls (audioRef (run loaded [NextAyah, CanPlay])) =
     calls (audioRef (step loaded NextAyah)) @ [Play] \<and>
   \<not> isPlaying (run loaded [NextAyah, CanPlay])"
  by (simp add: model_defs)

section \<open>C9: the same source is not loaded again\<close>




section \<open>C10: a failed fetch\<close>

text \<open>
  C10. When the fetch of a surah fails, whether \<open>fetch\<close> rejects, the response is not ok,
  or the body is malformed (\<open>getSurahData\<close> gives \<open>Inl msg\<close>), the settled fetch stores
  the message in \<open>error\<close>, sets \<open>isPlaying\<close> to false, sets \<open>surahData\<close> to null and ends
  loading.
\<close>

theorem fetch_failure_surfaces_error:
  assumes "r \<in> set (pending s)"
    and "getSurahData (req_surah r) (req_edition r) res = Inl msg"
  shows "error (step s (FetchSettled r res)) = Some msg \<and>
         \<not> isPlaying (step s (FetchSettled r res)) \<and>
         surahData (step s (FetchSettled r res)) = None \<and>
         \<not> isLoading (step s (FetchSettled r res))"
  using assms
  by (simp add: fetchSurahData_settled_def Let_def run_effects_def selection_changed_def
      audioEffect_def currentAyah_None)

text \<open>
  An instance: surah 1 is loaded and playing its last ayah, the advance requests surah 2,
  and the provider answers with code 404 and a message.
\<close>

theorem fetch_failure_surfaces_error_witness:
  "req 2 True \<in> set (pending (step playing_last NextAyah)) \<and>
   getSurahData 2 ''ar.alafasy'' (Response True ''OK'' (Parsed 404 (DataText ''No surah'')))
     = Inl ''No surah'' \<and>
   surahData (step playing_last NextAyah) \<noteq> None \<and>
   isPlaying (step playing_last NextAyah) \<and>
   error (run playing_last [NextAyah, FetchSettled (req 2 True)
            (Response True ''OK'' (Parsed 404 (DataText ''No surah'')))]) = Some ''No surah'' \<and>
   \<not> isPlaying (run playing_last [NextAyah, FetchSettled (req 2 True)
            (Response True ''OK'' (Parsed 404 (DataText ''No surah'')))]) \<and>
   surahData (run playing_last [NextAyah, FetchSettled (req 2 True)
            (Response True ''OK'' (Parsed 404 (DataText ''No surah'')))]) = None"
proof -
  let ?s = "step playing_last NextAyah"
  let ?res = "Response True ''OK'' (Parsed 404 (DataText ''No surah''))"
  have h1: "req 2 True \<in> set (pending ?s)"
    by (simp add: model_defs)
  have h2: "getSurahData (req_surah (req 2 True)) (req_edition (req 2 True)) ?res
              = Inl ''No surah''"
    by (simp add: getSurahData_def)
  have h3: "surahData ?s \<noteq> None"
    by (simp add: model_defs)
  have h4: "isPlaying ?s"
    by (simp add: model_defs)
  have h5: "getSurahData 2 ''ar.alafasy'' ?res = Inl ''No surah''"
    by (simp add: getSurahData_def)
  show ?thesis
    using h1 h3 h4 h5 fetch_failure_surfaces_error [OF h1 h2]
    by (simp add: run_def)
qed

end
